theory Spec2Isabelle
  imports Complex_Main "HOL-Library.Multiset"
begin

section \<open>JavaScript values read from the JSON document\<close>

text \<open>
  A number is the mathematical value of the double that \<open>JSON.parse\<close> produced: a
  rational, or an infinity for a literal out of range such as \<open>1e999\<close>. A JSON document
  holds no NaN. The values \<open>-0\<close> and \<open>0\<close> are one value here: the component cannot
  tell them apart (they compare equal and print the same).
\<close>

datatype jsnum = NegInfinity | Finite rat | PosInfinity

fun num_less :: "jsnum \<Rightarrow> jsnum \<Rightarrow> bool" where
  "num_less NegInfinity y = (y \<noteq> NegInfinity)"
| "num_less (Finite a) NegInfinity = False"
| "num_less (Finite a) (Finite b) = (a < b)"
| "num_less (Finite a) PosInfinity = True"
| "num_less PosInfinity y = False"

text \<open>
  The primitive values a row can hold. \<open>JUndefined\<close> is what reading a missing key gives.
\<close>

datatype jsval = JUndefined | JNull | JBool bool | JNum jsnum | JStr string

text \<open>
  Two conversions of the language runtime work on the binary representation of doubles
  and are taken as parameters: \<open>StringToNumber\<close> (the numeric value of a string, \<open>None\<close>
  for NaN) and \<open>NumberToString\<close> (the shortest decimal form of a number). Every theorem
  below holds for every runtime.
\<close>

record runtime =
  StringToNumber :: "string \<Rightarrow> jsnum option"
  NumberToString :: "jsnum \<Rightarrow> string"

fun ToNumber :: "runtime \<Rightarrow> jsval \<Rightarrow> jsnum option" where
  "ToNumber rt JUndefined = None"
| "ToNumber rt JNull = Some (Finite 0)"
| "ToNumber rt (JBool b) = Some (Finite (if b then 1 else 0))"
| "ToNumber rt (JNum n) = Some n"
| "ToNumber rt (JStr s) = StringToNumber rt s"

text \<open>
  Strings compare by code units, a proper prefix being smaller. A \<open>string\<close> here is a
  list of code units below 256.
\<close>

fun str_less :: "string \<Rightarrow> string \<Rightarrow> bool" where
  "str_less [] [] = False"
| "str_less [] (y # ys) = True"
| "str_less (x # xs) [] = False"
| "str_less (x # xs) (y # ys) =
     (if (of_char x :: nat) < of_char y then True
      else if (of_char y :: nat) < of_char x then False
      else str_less xs ys)"

text \<open>
  The abstract relational comparison \<open>x < y\<close> of the language: \<open>Some True\<close>,
  \<open>Some False\<close>, or \<open>None\<close> (undefined) when an operand converts to NaN. Two strings
  compare as strings; every other pair compares as numbers.
\<close>

definition IsLessThan :: "runtime \<Rightarrow> jsval \<Rightarrow> jsval \<Rightarrow> bool option" where
  "IsLessThan rt x y =
     (case (x, y) of
        (JStr a, JStr b) \<Rightarrow> Some (str_less a b)
      | _ \<Rightarrow>
          (case (ToNumber rt x, ToNumber rt y) of
             (Some nx, Some ny) \<Rightarrow> Some (num_less nx ny)
           | _ \<Rightarrow> None))"

text \<open>The four operators: an undefined comparison makes each of them false.\<close>

definition js_lt :: "runtime \<Rightarrow> jsval \<Rightarrow> jsval \<Rightarrow> bool" where
  "js_lt rt a b = (IsLessThan rt a b = Some True)"

definition js_gt :: "runtime \<Rightarrow> jsval \<Rightarrow> jsval \<Rightarrow> bool" where
  "js_gt rt a b = (IsLessThan rt b a = Some True)"

definition js_le :: "runtime \<Rightarrow> jsval \<Rightarrow> jsval \<Rightarrow> bool" where
  "js_le rt a b = (IsLessThan rt b a = Some False)"

definition js_ge :: "runtime \<Rightarrow> jsval \<Rightarrow> jsval \<Rightarrow> bool" where
  "js_ge rt a b = (IsLessThan rt a b = Some False)"

section \<open>The data model\<close>

text \<open>
  A row is a JSON object: a map from property names to values. Reading a key that the
  object lacks gives \<open>undefined\<close>. The dataset has the shape the component trusts
  (title, columns, rows); the component validates nothing. A column's \<open>id\<close> is named
  \<open>col_id\<close> here.
\<close>

type_synonym row = "string \<rightharpoonup> jsval"

definition get_prop :: "row \<Rightarrow> string \<Rightarrow> jsval" where
  "get_prop r k = (case r k of None \<Rightarrow> JUndefined | Some v \<Rightarrow> v)"

record column =
  col_id :: string
  label :: string
  sortable :: bool
  emphasized :: bool

record dataset =
  title :: string
  columns :: "column list"
  rows :: "row list"

record sort_config =
  key :: string
  direction :: string

section \<open>The page: elements, console, network\<close>

text \<open>
  A DOM node is a text node or an element with its tag, its class tokens in attribute
  order, the column id its click listener is bound to (the listener calls
  \<open>handleSort\<close> with it), and its children.
\<close>

datatype node =
  TextNode string
| Element (tag: string) (classes: "string list") (click: "string option") (children: "node list")

datatype js_error =
  Error string
| NetworkError
| ParseError
| TypeError

text \<open>
  What \<open>fetch\<close> gives for a URL: the promise rejects (transport failure), or it
  resolves to a response with a status, a status text and a body. \<open>json\<close> is the
  result of parsing the body, \<open>None\<close> when the body is not JSON.
\<close>

record response =
  status :: nat
  statusText :: string
  json :: "dataset option"

datatype fetch_outcome = Rejected | Resolved response

definition ok :: "response \<Rightarrow> bool" where
  "ok r = (200 \<le> status r \<and> status r \<le> 299)"

text \<open>
  The renderer instance together with the page it works on: \<open>document\<close> maps an
  element id to the element \<open>getElementById\<close> finds (\<open>None\<close> for null), \<open>console\<close>
  is the list of \<open>console.error\<close> calls, each a message and the error logged with it.
\<close>

record state =
  tableId :: string
  headId :: string
  bodyId :: string
  titleId :: string
  dataUrl :: string
  data :: "dataset option"
  sortConfig :: sort_config
  document :: "string \<rightharpoonup> node"
  console :: "(string \<times> js_error option) list"

record config =
  cfg_tableId :: string
  cfg_headId :: string
  cfg_bodyId :: string
  cfg_titleId :: string
  cfg_dataUrl :: string

definition constructor :: "config \<Rightarrow> (string \<rightharpoonup> node) \<Rightarrow> state" where
  "constructor cfg doc =
     \<lparr> tableId = cfg_tableId cfg, headId = cfg_headId cfg, bodyId = cfg_bodyId cfg,
       titleId = cfg_titleId cfg, dataUrl = cfg_dataUrl cfg,
       data = None,
       sortConfig = \<lparr> key = ''average'', direction = ''desc'' \<rparr>,
       document = doc, console = [] \<rparr>"

definition console_error :: "string \<Rightarrow> js_error option \<Rightarrow> state \<Rightarrow> state" where
  "console_error msg e st = st \<lparr> console := console st @ [(msg, e)] \<rparr>"

section \<open>Array.prototype.sort\<close>

text \<open>
  The language requires \<open>sort\<close> to be stable and to order the array by the sign of the
  compare function. It is modelled by stable insertion: each element in turn goes in
  front of the first element of the sorted part that it is less than (compare result
  negative), hence behind every element it is equal to.
\<close>

fun insert_by :: "('a \<Rightarrow> 'a \<Rightarrow> int) \<Rightarrow> 'a \<Rightarrow> 'a list \<Rightarrow> 'a list" where
  "insert_by c x [] = [x]"
| "insert_by c x (y # ys) = (if c x y < 0 then x # y # ys else y # insert_by c x ys)"

definition array_sort :: "('a \<Rightarrow> 'a \<Rightarrow> int) \<Rightarrow> 'a list \<Rightarrow> 'a list" where
  "array_sort c xs = foldl (\<lambda>acc x. insert_by c x acc) [] xs"

text \<open>
  Arrays are objects: \<open>sort\<close> reorders the array it is called on and returns that same
  array. A store holds the arrays by address. The spread \<open>[...a]\<close> allocates a new
  array with the elements of \<open>a\<close>.
\<close>

type_synonym 'a store = "'a list list"

definition spread :: "'a store \<Rightarrow> nat \<Rightarrow> 'a store \<times> nat" where
  "spread h a = (h @ [h ! a], length h)"

definition sort_in_place :: "('a \<Rightarrow> 'a \<Rightarrow> int) \<Rightarrow> 'a store \<Rightarrow> nat \<Rightarrow> 'a store" where
  "sort_in_place c h a = h[a := array_sort c (h ! a)]"

section \<open>getSortedRows\<close>

text \<open>The compare function of \<open>getSortedRows\<close>, reading \<open>this.sortConfig\<close>.\<close>

definition compareRows :: "runtime \<Rightarrow> sort_config \<Rightarrow> row \<Rightarrow> row \<Rightarrow> int" where
  "compareRows rt sc a b =
     (if js_lt rt (get_prop a (key sc)) (get_prop b (key sc))
      then (if direction sc = ''asc'' then - 1 else 1)
      else if js_gt rt (get_prop a (key sc)) (get_prop b (key sc))
      then (if direction sc = ''asc'' then 1 else - 1)
      else 0)"

text \<open>
  \<open>getSortedRows\<close> returns the sorted array and the state afterwards. Address 0 of the
  store is the array \<open>this.data.rows\<close>; the state afterwards holds whatever that
  address holds when the sort has finished. Reading \<open>this.data.rows\<close> while
  \<open>this.data\<close> is null raises a TypeError.
\<close>

definition getSortedRows :: "runtime \<Rightarrow> state \<Rightarrow> js_error + (row list \<times> state)" where
  "getSortedRows rt st =
     (case data st of
        None \<Rightarrow> Inl TypeError
      | Some d \<Rightarrow>
          (let h0 = [rows d];
               (h1, b) = spread h0 0;
               h2 = sort_in_place (compareRows rt (sortConfig st)) h1 b
           in Inr (h2 ! b, st \<lparr> data := Some (d \<lparr> rows := h2 ! 0 \<rparr>) \<rparr>)))"

section \<open>DOM operations\<close>

text \<open>
  Assigning a string to \<open>textContent\<close> replaces the children of an element by one text
  node, or by nothing when the string is empty. Reading it gives the text of all
  descendants in order.
\<close>

fun set_textContent :: "string \<Rightarrow> node \<Rightarrow> node" where
  "set_textContent s (TextNode old) = TextNode s"
| "set_textContent s (Element t cs l ch) = Element t cs l (if s = [] then [] else [TextNode s])"

fun textContent :: "node \<Rightarrow> string" where
  "textContent (TextNode s) = s"
| "textContent (Element t cs l ch) = concat (map textContent ch)"

text \<open>
  \<open>textContent\<close> is a nullable string attribute: assigning \<open>undefined\<close> or \<open>null\<close>
  to it gives the empty string, any other value its string form.
\<close>

fun DOMString_of :: "runtime \<Rightarrow> jsval \<Rightarrow> string" where
  "DOMString_of rt JUndefined = []"
| "DOMString_of rt JNull = []"
| "DOMString_of rt (JBool b) = (if b then ''true'' else ''false'')"
| "DOMString_of rt (JNum n) = NumberToString rt n"
| "DOMString_of rt (JStr s) = s"

text \<open>\<open>el.innerHTML = ''\<close> removes the children.\<close>

fun clear_innerHTML :: "node \<Rightarrow> node" where
  "clear_innerHTML (TextNode s) = TextNode s"
| "clear_innerHTML (Element t cs l ch) = Element t cs l []"

fun appendChild :: "node \<Rightarrow> node \<Rightarrow> node" where
  "appendChild (TextNode s) c = TextNode s"
| "appendChild (Element t cs l ch) c = Element t cs l (ch @ [c])"

text \<open>Appending a document fragment appends its children, in order.\<close>

fun appendFragment :: "node \<Rightarrow> node list \<Rightarrow> node" where
  "appendFragment (TextNode s) frag = TextNode s"
| "appendFragment (Element t cs l ch) frag = Element t cs l (ch @ frag)"

fun classList_add :: "string \<Rightarrow> node \<Rightarrow> node" where
  "classList_add c (TextNode s) = TextNode s"
| "classList_add c (Element t cs l ch) = Element t (if c \<in> set cs then cs else cs @ [c]) l ch"

text \<open>\<open>el.className += ' token'\<close> puts the token behind the ones the attribute has.\<close>

fun className_append :: "string \<Rightarrow> node \<Rightarrow> node" where
  "className_append c (TextNode s) = TextNode s"
| "className_append c (Element t cs l ch) = Element t (cs @ [c]) l ch"

fun addClickListener :: "string \<Rightarrow> node \<Rightarrow> node" where
  "addClickListener k (TextNode s) = TextNode s"
| "addClickListener k (Element t cs l ch) = Element t cs (Some k) ch"

definition createElement :: "string \<Rightarrow> node" where
  "createElement t = Element t [] None []"

section \<open>loadData\<close>

text \<open>The status is an integer; the template literal prints it in decimal.\<close>

definition digit_char :: "nat \<Rightarrow> char" where
  "digit_char n = ''0123456789'' ! n"

fun decimal :: "nat \<Rightarrow> string" where
  "decimal n = (if n < 10 then [digit_char n] else decimal (n div 10) @ [digit_char (n mod 10)])"

declare decimal.simps [simp del]

text \<open>
  The body of the \<open>try\<close> block: fetch, check the status, parse, store. The result is
  the value returned or the error thrown, with the state at that moment.
\<close>

definition loadData_try :: "(string \<Rightarrow> fetch_outcome) \<Rightarrow> state \<Rightarrow> (js_error + dataset) \<times> state" where
  "loadData_try net st =
     (case net (dataUrl st) of
        Rejected \<Rightarrow> (Inl NetworkError, st)
      | Resolved r \<Rightarrow>
          if \<not> ok r
          then (Inl (Error (''Failed to load data: '' @ decimal (status r) @ '' '' @ statusText r)), st)
          else (case json r of
                  None \<Rightarrow> (Inl ParseError, st)
                | Some d \<Rightarrow> (Inr d, st \<lparr> data := Some d \<rparr>)))"

text \<open>
  The \<open>catch\<close> block logs the error, writes the message into the title element and
  throws the error again. The write dereferences what \<open>getElementById\<close> returned: on
  null it raises a TypeError, which leaves \<open>loadData\<close> in place of the caught error.
\<close>

definition loadData :: "(string \<Rightarrow> fetch_outcome) \<Rightarrow> state \<Rightarrow> (js_error + dataset) \<times> state" where
  "loadData net st =
     (case loadData_try net st of
        (Inr d, st1) \<Rightarrow> (Inr d, st1)
      | (Inl e, st1) \<Rightarrow>
          (let st2 = console_error ''Error loading leaderboard data:'' (Some e) st1
           in case document st2 (titleId st2) of
                None \<Rightarrow> (Inl TypeError, st2)
              | Some el \<Rightarrow>
                  (Inl e, st2 \<lparr> document := (document st2)
                      (titleId st2 \<mapsto> set_textContent ''Error loading leaderboard data'' el) \<rparr>)))"

section \<open>createHeaderRow and createTableBody\<close>

text \<open>The body of the \<open>forEach\<close> of \<open>createHeaderRow\<close>: the header cell of one column.\<close>

definition header_cell :: "sort_config \<Rightarrow> column \<Rightarrow> node" where
  "header_cell sc column =
     (let th0 = set_textContent (label column) (createElement ''th'');
          th1 = (if sortable column
                 then (let a = addClickListener (col_id column) (classList_add ''sortable'' th0)
                       in if key sc = col_id column
                          then className_append
                                 (if direction sc = ''asc'' then ''sorted-asc'' else ''sorted-desc'') a
                          else a)
                 else th0)
      in if emphasized column then classList_add ''average-column'' th1 else th1)"

definition createHeaderRow :: "state \<Rightarrow> js_error + node" where
  "createHeaderRow st =
     (case data st of
        None \<Rightarrow> Inl TypeError
      | Some d \<Rightarrow>
          Inr (foldl (\<lambda>headerRow column. appendChild headerRow (header_cell (sortConfig st) column))
                 (createElement ''tr'') (columns d)))"

text \<open>The body of the inner \<open>forEach\<close> of \<open>createTableBody\<close>: the cell of one column.\<close>

definition body_cell :: "runtime \<Rightarrow> row \<Rightarrow> column \<Rightarrow> node" where
  "body_cell rt r column =
     (let td0 = set_textContent (DOMString_of rt (get_prop r (col_id column))) (createElement ''td'');
          td1 = (if col_id column = ''method'' then classList_add ''method-column'' td0 else td0)
      in if col_id column = ''average'' then classList_add ''average-column'' td1 else td1)"

definition body_row :: "runtime \<Rightarrow> column list \<Rightarrow> row \<Rightarrow> node" where
  "body_row rt cols r =
     foldl (\<lambda>tr column. appendChild tr (body_cell rt r column)) (createElement ''tr'') cols"

text \<open>
  The fragment is the list of its children. \<open>this.data.columns\<close> is read once per row,
  so with \<open>this.data\<close> null the first row raises a TypeError and no row raises nothing.
\<close>

definition createTableBody :: "runtime \<Rightarrow> state \<Rightarrow> row list \<Rightarrow> js_error + node list" where
  "createTableBody rt st sortedRows =
     (case data st of
        None \<Rightarrow> (if sortedRows = [] then Inr [] else Inl TypeError)
      | Some d \<Rightarrow>
          Inr (foldl (\<lambda>fragment r. fragment @ [body_row rt (columns d) r]) [] sortedRows))"

section \<open>renderTable, handleSort, init\<close>

text \<open>
  Each element is looked up when the source looks it up, so two ids that name one
  element are handled as in the browser. The result is the normal return or the error
  thrown, with the state at that moment.
\<close>

definition renderTable :: "runtime \<Rightarrow> state \<Rightarrow> (js_error + unit) \<times> state" where
  "renderTable rt st =
     (case data st of
        None \<Rightarrow> (Inr (), console_error ''No data available to render table'' None st)
      | Some d \<Rightarrow>
          (let st1 = (case document st (titleId st) of
                        None \<Rightarrow> st
                      | Some titleElement \<Rightarrow>
                          st \<lparr> document := (document st)
                                 (titleId st \<mapsto> set_textContent (title d) titleElement) \<rparr>);
               head = (case document st1 (headId st1) of
                         None \<Rightarrow> (Inr (), st1)
                       | Some tableHead \<Rightarrow>
                           (let cleared = clear_innerHTML tableHead;
                                st2 = st1 \<lparr> document := (document st1)(headId st1 \<mapsto> cleared) \<rparr>
                            in case createHeaderRow st2 of
                                 Inl e \<Rightarrow> (Inl e, st2)
                               | Inr headerRow \<Rightarrow>
                                   (Inr (), st2 \<lparr> document := (document st2)
                                       (headId st2 \<mapsto> appendChild cleared headerRow) \<rparr>)))
           in case head of
                (Inl e, st3) \<Rightarrow> (Inl e, st3)
              | (Inr u, st3) \<Rightarrow>
                  (case getSortedRows rt st3 of
                     Inl e \<Rightarrow> (Inl e, st3)
                   | Inr (sortedRows, st4) \<Rightarrow>
                       (case document st4 (bodyId st4) of
                          None \<Rightarrow> (Inr (), st4)
                        | Some tableBody \<Rightarrow>
                            (let cleared = clear_innerHTML tableBody;
                                 st5 = st4 \<lparr> document := (document st4)(bodyId st4 \<mapsto> cleared) \<rparr>
                             in case createTableBody rt st5 sortedRows of
                                  Inl e \<Rightarrow> (Inl e, st5)
                                | Inr fragment \<Rightarrow>
                                    (Inr (), st5 \<lparr> document := (document st5)
                                        (bodyId st5 \<mapsto> appendFragment cleared fragment) \<rparr>))))))"

definition handleSort :: "runtime \<Rightarrow> string \<Rightarrow> state \<Rightarrow> (js_error + unit) \<times> state" where
  "handleSort rt k st =
     (let dir = (if key (sortConfig st) = k \<and> direction (sortConfig st) = ''asc''
                 then ''desc'' else ''asc'')
      in renderTable rt (st \<lparr> sortConfig := \<lparr> key = k, direction = dir \<rparr> \<rparr>))"

text \<open>\<open>init\<close> resolves to a boolean; it catches whatever the two calls throw.\<close>

definition init :: "(string \<Rightarrow> fetch_outcome) \<Rightarrow> runtime \<Rightarrow> state \<Rightarrow> bool \<times> state" where
  "init net rt st =
     (case loadData net st of
        (Inl e, st1) \<Rightarrow> (False, console_error ''Failed to initialize leaderboard:'' (Some e) st1)
      | (Inr d, st1) \<Rightarrow>
          (case renderTable rt st1 of
             (Inl e, st2) \<Rightarrow> (False, console_error ''Failed to initialize leaderboard:'' (Some e) st2)
           | (Inr u, st2) \<Rightarrow> (True, st2)))"

section \<open>The bootstrap configuration and sample data\<close>

text \<open>
  The configuration the module passes to the constructor when the page has loaded, a
  page that has the three elements, and a page that lacks the title element.
\<close>

definition bootstrap_config :: config where
  "bootstrap_config =
     \<lparr> cfg_tableId = ''leaderboard'', cfg_headId = ''table-head'', cfg_bodyId = ''table-body'',
       cfg_titleId = ''table-title'', cfg_dataUrl = ''static/json/leaderboard-data.json'' \<rparr>"

definition sample_page :: "string \<rightharpoonup> node" where
  "sample_page =
     [''table-title'' \<mapsto> Element ''h2'' [] None [],
      ''table-head'' \<mapsto> Element ''thead'' [] None [],
      ''table-body'' \<mapsto> Element ''tbody'' [] None []]"

definition page_without_title :: "string \<rightharpoonup> node" where
  "page_without_title =
     [''table-head'' \<mapsto> Element ''thead'' [] None [],
      ''table-body'' \<mapsto> Element ''tbody'' [] None []]"

definition sample_columns :: "column list" where
  "sample_columns =
     [\<lparr> col_id = ''method'', label = ''Method'', sortable = False, emphasized = False \<rparr>,
      \<lparr> col_id = ''average'', label = ''Average'', sortable = True, emphasized = True \<rparr>]"

definition row_A :: row where
  "row_A = [''method'' \<mapsto> JStr ''ModelA'', ''average'' \<mapsto> JNum (Finite (91 / 100))]"

definition row_B :: row where
  "row_B = [''method'' \<mapsto> JStr ''ModelB'', ''average'' \<mapsto> JNum (Finite (95 / 100))]"

definition row_C :: row where
  "row_C = [''method'' \<mapsto> JStr ''ModelC'', ''average'' \<mapsto> JNum (Finite (1 / 2))]"

text \<open>A row whose document gives no average.\<close>

definition row_D :: row where
  "row_D = [''method'' \<mapsto> JStr ''ModelD'']"

definition sample_dataset :: dataset where
  "sample_dataset =
     \<lparr> title = ''Model Leaderboard'', columns = sample_columns, rows = [row_A, row_B, row_C] \<rparr>"

definition partial_dataset :: dataset where
  "partial_dataset =
     \<lparr> title = ''Model Leaderboard'', columns = sample_columns, rows = [row_A, row_D] \<rparr>"

text \<open>The renderer of the bootstrap once a dataset is stored.\<close>

definition loaded_sample :: state where
  "loaded_sample = (constructor bootstrap_config sample_page) \<lparr> data := Some sample_dataset \<rparr>"

definition loaded_partial :: state where
  "loaded_partial = (constructor bootstrap_config sample_page) \<lparr> data := Some partial_dataset \<rparr>"

definition not_found :: "string \<Rightarrow> fetch_outcome" where
  "not_found url = Resolved \<lparr> status = 404, statusText = ''Not Found'', json = None \<rparr>"


text \<open>Whether \<open>p\<close> occurs in \<open>s\<close> as a contiguous piece.\<close>

fun starts_with :: "string \<Rightarrow> string \<Rightarrow> bool" where
  "starts_with [] s = True"
| "starts_with (p # ps) [] = False"
| "starts_with (p # ps) (c # cs) = (p = c \<and> starts_with ps cs)"

fun contains :: "string \<Rightarrow> string \<Rightarrow> bool" where
  "contains p [] = starts_with p []"
| "contains p (c # cs) = (starts_with p (c # cs) \<or> contains p cs)"

section \<open>Properties of the sort\<close>

lemma mset_insert_by: "mset (insert_by c x ys) = add_mset x (mset ys)"
  by (induction ys) auto

lemma set_insert_by: "set (insert_by c x ys) = insert x (set ys)"
  by (induction ys) auto

lemma mset_foldl_insert_by:
  "mset (foldl (\<lambda>acc x. insert_by c x acc) acc xs) = mset acc + mset xs"
  by (induction xs arbitrary: acc) (auto simp: mset_insert_by)

lemma mset_array_sort: "mset (array_sort c xs) = mset xs"
  by (simp add: array_sort_def mset_foldl_insert_by)

lemma length_array_sort: "length (array_sort c xs) = length xs"
  using mset_array_sort [of c xs] by (metis size_mset)

text \<open>
  Insertion keeps a list ordered by \<open>P\<close> when, on the elements at hand, \<open>P\<close> is
  transitive, a negative compare result means \<open>P a b\<close> and any other result means
  \<open>P b a\<close>.
\<close>

lemma sorted_insert_by:
  assumes tr: "\<And>a b d. a \<in> S \<Longrightarrow> b \<in> S \<Longrightarrow> d \<in> S \<Longrightarrow> P a b \<Longrightarrow> P b d \<Longrightarrow> P a d"
    and neg: "\<And>a b. a \<in> S \<Longrightarrow> b \<in> S \<Longrightarrow> c a b < 0 \<Longrightarrow> P a b"
    and nonneg: "\<And>a b. a \<in> S \<Longrightarrow> b \<in> S \<Longrightarrow> \<not> c a b < 0 \<Longrightarrow> P b a"
  shows "x \<in> S \<Longrightarrow> set ys \<subseteq> S \<Longrightarrow> sorted_wrt P ys \<Longrightarrow> sorted_wrt P (insert_by c x ys)"
proof (induction ys)
  case Nil
  then show ?case by simp
next
  case (Cons y ys)
  show ?case
  proof (cases "c x y < 0")
    case True
    have xy: "P x y" using neg Cons.prems True by simp
    have "\<forall>z\<in>set ys. P x z"
    proof
      fix z assume z: "z \<in> set ys"
      then have "P y z" using Cons.prems by simp
      then show "P x z" using tr [of x y z] xy z Cons.prems by auto
    qed
    then show ?thesis using True xy Cons.prems by simp
  next
    case False
    have yx: "P y x" using nonneg Cons.prems False by simp
    have "sorted_wrt P (insert_by c x ys)" using Cons by simp
    moreover have "\<forall>z\<in>set (insert_by c x ys). P y z"
      using yx Cons.prems by (simp add: set_insert_by)
    ultimately show ?thesis using False by simp
  qed
qed

lemma sorted_foldl_insert_by:
  assumes tr: "\<And>a b d. a \<in> S \<Longrightarrow> b \<in> S \<Longrightarrow> d \<in> S \<Longrightarrow> P a b \<Longrightarrow> P b d \<Longrightarrow> P a d"
    and neg: "\<And>a b. a \<in> S \<Longrightarrow> b \<in> S \<Longrightarrow> c a b < 0 \<Longrightarrow> P a b"
    and nonneg: "\<And>a b. a \<in> S \<Longrightarrow> b \<in> S \<Longrightarrow> \<not> c a b < 0 \<Longrightarrow> P b a"
  shows "set xs \<subseteq> S \<Longrightarrow> set acc \<subseteq> S \<Longrightarrow> sorted_wrt P acc \<Longrightarrow>
         sorted_wrt P (foldl (\<lambda>acc x. insert_by c x acc) acc xs)"
proof (induction xs arbitrary: acc)
  case Nil
  then show ?case by simp
next
  case (Cons x xs)
  have 1: "sorted_wrt P (insert_by c x acc)"
  proof (rule sorted_insert_by [of S P c])
    show "\<And>a b d. a \<in> S \<Longrightarrow> b \<in> S \<Longrightarrow> d \<in> S \<Longrightarrow> P a b \<Longrightarrow> P b d \<Longrightarrow> P a d"
      by (rule tr)
    show "\<And>a b. a \<in> S \<Longrightarrow> b \<in> S \<Longrightarrow> c a b < 0 \<Longrightarrow> P a b"
      by (rule neg)
    show "\<And>a b. a \<in> S \<Longrightarrow> b \<in> S \<Longrightarrow> \<not> c a b < 0 \<Longrightarrow> P b a"
      by (rule nonneg)
    show "x \<in> S" using Cons.prems by simp
    show "set acc \<subseteq> S" using Cons.prems by simp
    show "sorted_wrt P acc" using Cons.prems by simp
  qed
  have 2: "set (insert_by c x acc) \<subseteq> S"
    using Cons.prems by (simp add: set_insert_by)
  show ?case using Cons.IH [OF _ 2 1] Cons.prems by simp
qed

lemma sorted_array_sort:
  assumes tr: "\<And>a b d. a \<in> set xs \<Longrightarrow> b \<in> set xs \<Longrightarrow> d \<in> set xs \<Longrightarrow> P a b \<Longrightarrow> P b d \<Longrightarrow> P a d"
    and neg: "\<And>a b. a \<in> set xs \<Longrightarrow> b \<in> set xs \<Longrightarrow> c a b < 0 \<Longrightarrow> P a b"
    and nonneg: "\<And>a b. a \<in> set xs \<Longrightarrow> b \<in> set xs \<Longrightarrow> \<not> c a b < 0 \<Longrightarrow> P b a"
  shows "sorted_wrt P (array_sort c xs)"
  unfolding array_sort_def
proof (rule sorted_foldl_insert_by [of "set xs" P c])
  show "\<And>a b d. a \<in> set xs \<Longrightarrow> b \<in> set xs \<Longrightarrow> d \<in> set xs \<Longrightarrow> P a b \<Longrightarrow> P b d \<Longrightarrow> P a d"
    by (rule tr)
  show "\<And>a b. a \<in> set xs \<Longrightarrow> b \<in> set xs \<Longrightarrow> c a b < 0 \<Longrightarrow> P a b"
    by (rule neg)
  show "\<And>a b. a \<in> set xs \<Longrightarrow> b \<in> set xs \<Longrightarrow> \<not> c a b < 0 \<Longrightarrow> P b a"
    by (rule nonneg)
qed simp_all

section \<open>Properties of the comparison\<close>

lemma num_less_asym: "num_less a b \<Longrightarrow> \<not> num_less b a"
  by (cases a; cases b) auto

lemma num_less_negtrans: "\<not> num_less b a \<Longrightarrow> \<not> num_less d b \<Longrightarrow> \<not> num_less d a"
  by (cases a; cases b; cases d) auto

lemma str_less_asym: "str_less a b \<Longrightarrow> \<not> str_less b a"
  by (induction a b rule: str_less.induct) (auto split: if_splits)

lemma str_less_negtrans: "\<not> str_less b a \<Longrightarrow> \<not> str_less d b \<Longrightarrow> \<not> str_less d a"
proof (induction a arbitrary: b d)
  case Nil
  then show ?case by (cases b; cases d) (auto split: if_splits)
next
  case (Cons x xs)
  show ?case
  proof (cases b)
    case Nil
    then show ?thesis using Cons.prems by simp
  next
    case b: (Cons y ys)
    show ?thesis
    proof (cases d)
      case Nil
      then show ?thesis using Cons.prems b by simp
    next
      case d: (Cons z zs)
      show ?thesis using Cons.prems Cons.IH [of ys zs] unfolding b d
        by (auto split: if_splits)
    qed
  qed
qed

lemma IsLessThan_num: "IsLessThan rt (JNum a) (JNum b) = Some (num_less a b)"
  by (simp add: IsLessThan_def)

lemma IsLessThan_str: "IsLessThan rt (JStr a) (JStr b) = Some (str_less a b)"
  by (simp add: IsLessThan_def)

text \<open>
  When every row holds a number at a key, or every row holds a string there, the
  comparison \<open>\<le>\<close> of the values at the key is total and transitive on the rows.
\<close>

lemma js_le_trans:
  assumes "(\<forall>r\<in>S. \<exists>n. f r = JNum n) \<or> (\<forall>r\<in>S. \<exists>s. f r = JStr s)"
    and "a \<in> S" "b \<in> S" "d \<in> S"
    and "js_le rt (f a) (f b)" "js_le rt (f b) (f d)"
  shows "js_le rt (f a) (f d)"
  using assms(1)
proof
  assume "\<forall>r\<in>S. \<exists>n. f r = JNum n"
  then obtain na nb nd where "f a = JNum na" "f b = JNum nb" "f d = JNum nd"
    using assms(2-4) by blast
  then show ?thesis using assms(5,6) num_less_negtrans [of nb na nd]
    by (simp add: js_le_def IsLessThan_num)
next
  assume "\<forall>r\<in>S. \<exists>s. f r = JStr s"
  then obtain sa sb sd where "f a = JStr sa" "f b = JStr sb" "f d = JStr sd"
    using assms(2-4) by blast
  then show ?thesis using assms(5,6) str_less_negtrans [of sb sa sd]
    by (simp add: js_le_def IsLessThan_str)
qed

lemma js_lt_imp_le:
  assumes "(\<forall>r\<in>S. \<exists>n. f r = JNum n) \<or> (\<forall>r\<in>S. \<exists>s. f r = JStr s)"
    and "a \<in> S" "b \<in> S" and "js_lt rt (f a) (f b)"
  shows "js_le rt (f a) (f b)"
  using assms(1)
proof
  assume "\<forall>r\<in>S. \<exists>n. f r = JNum n"
  then obtain na nb where "f a = JNum na" "f b = JNum nb" using assms(2,3) by blast
  then show ?thesis using assms(4) num_less_asym [of na nb]
    by (simp add: js_le_def js_lt_def IsLessThan_num)
next
  assume "\<forall>r\<in>S. \<exists>s. f r = JStr s"
  then obtain sa sb where "f a = JStr sa" "f b = JStr sb" using assms(2,3) by blast
  then show ?thesis using assms(4) str_less_asym [of sa sb]
    by (simp add: js_le_def js_lt_def IsLessThan_str)
qed

lemma not_js_lt_imp_ge:
  assumes "(\<forall>r\<in>S. \<exists>n. f r = JNum n) \<or> (\<forall>r\<in>S. \<exists>s. f r = JStr s)"
    and "a \<in> S" "b \<in> S" and "\<not> js_lt rt (f a) (f b)"
  shows "js_le rt (f b) (f a)"
  using assms(1)
proof
  assume "\<forall>r\<in>S. \<exists>n. f r = JNum n"
  then obtain na nb where "f a = JNum na" "f b = JNum nb" using assms(2,3) by blast
  then show ?thesis using assms(4) by (simp add: js_le_def js_lt_def IsLessThan_num)
next
  assume "\<forall>r\<in>S. \<exists>s. f r = JStr s"
  then obtain sa sb where "f a = JStr sa" "f b = JStr sb" using assms(2,3) by blast
  then show ?thesis using assms(4) by (simp add: js_le_def js_lt_def IsLessThan_str)
qed

lemma js_ge_le: "js_ge rt x y = js_le rt y x"
  by (simp add: js_ge_def js_le_def)

lemma js_gt_lt: "js_gt rt x y = js_lt rt y x"
  by (simp add: js_gt_def js_lt_def)

lemma compareRows_asc_neg:
  "direction sc = ''asc'' \<Longrightarrow>
   (compareRows rt sc a b < 0) = js_lt rt (get_prop a (key sc)) (get_prop b (key sc))"
  by (simp add: compareRows_def)

lemma compareRows_desc_neg:
  "direction sc \<noteq> ''asc'' \<Longrightarrow>
   (compareRows rt sc a b < 0) =
     (\<not> js_lt rt (get_prop a (key sc)) (get_prop b (key sc)) \<and>
      js_lt rt (get_prop b (key sc)) (get_prop a (key sc)))"
  by (simp add: compareRows_def js_gt_lt)

lemma sorted_asc:
  assumes hom: "(\<forall>r\<in>set xs. \<exists>n. get_prop r (key sc) = JNum n) \<or>
                (\<forall>r\<in>set xs. \<exists>s. get_prop r (key sc) = JStr s)"
    and asc: "direction sc = ''asc''"
  shows "sorted_wrt (\<lambda>a b. js_le rt (get_prop a (key sc)) (get_prop b (key sc)))
           (array_sort (compareRows rt sc) xs)"
proof (rule sorted_array_sort)
  fix a b d
  assume "a \<in> set xs" "b \<in> set xs" "d \<in> set xs"
    and "js_le rt (get_prop a (key sc)) (get_prop b (key sc))"
    and "js_le rt (get_prop b (key sc)) (get_prop d (key sc))"
  then show "js_le rt (get_prop a (key sc)) (get_prop d (key sc))"
    using js_le_trans [OF hom, of a b d rt] by simp
next
  fix a b
  assume "a \<in> set xs" "b \<in> set xs" "compareRows rt sc a b < 0"
  then show "js_le rt (get_prop a (key sc)) (get_prop b (key sc))"
    using js_lt_imp_le [OF hom, of a b rt] by (simp add: compareRows_asc_neg [OF asc])
next
  fix a b
  assume "a \<in> set xs" "b \<in> set xs" "\<not> compareRows rt sc a b < 0"
  then show "js_le rt (get_prop b (key sc)) (get_prop a (key sc))"
    using not_js_lt_imp_ge [OF hom, of a b rt] by (simp add: compareRows_asc_neg [OF asc])
qed

lemma sorted_desc:
  assumes hom: "(\<forall>r\<in>set xs. \<exists>n. get_prop r (key sc) = JNum n) \<or>
                (\<forall>r\<in>set xs. \<exists>s. get_prop r (key sc) = JStr s)"
    and desc: "direction sc \<noteq> ''asc''"
  shows "sorted_wrt (\<lambda>a b. js_ge rt (get_prop a (key sc)) (get_prop b (key sc)))
           (array_sort (compareRows rt sc) xs)"
proof (rule sorted_array_sort)
  fix a b d
  assume "a \<in> set xs" "b \<in> set xs" "d \<in> set xs"
    and "js_ge rt (get_prop a (key sc)) (get_prop b (key sc))"
    and "js_ge rt (get_prop b (key sc)) (get_prop d (key sc))"
  then show "js_ge rt (get_prop a (key sc)) (get_prop d (key sc))"
    using js_le_trans [OF hom, of d b a rt] by (simp add: js_ge_le)
next
  fix a b
  assume "a \<in> set xs" "b \<in> set xs" "compareRows rt sc a b < 0"
  then show "js_ge rt (get_prop a (key sc)) (get_prop b (key sc))"
    using js_lt_imp_le [OF hom, of b a rt] by (simp add: compareRows_desc_neg [OF desc] js_ge_le)
next
  fix a b
  assume ab: "a \<in> set xs" "b \<in> set xs" and n: "\<not> compareRows rt sc a b < 0"
  show "js_ge rt (get_prop b (key sc)) (get_prop a (key sc))"
  proof (cases "js_lt rt (get_prop a (key sc)) (get_prop b (key sc))")
    case True
    then show ?thesis using js_lt_imp_le [OF hom, of a b rt] ab by (simp add: js_ge_le)
  next
    case False
    then have "\<not> js_lt rt (get_prop b (key sc)) (get_prop a (key sc))"
      using n by (simp add: compareRows_desc_neg [OF desc])
    then show ?thesis using not_js_lt_imp_ge [OF hom, of b a rt] ab by (simp add: js_ge_le)
  qed
qed

section \<open>getSortedRows: order and permutation\<close>

text \<open>
  The spread gives an address that the store did not have, and keeps the arrays at the
  addresses it had; the sort writes at its own address only.
\<close>

lemma spread_fresh:
  "spread h a = (h', b) \<Longrightarrow> b = length h \<and> h' ! b = h ! a \<and> (\<forall>i<length h. h' ! i = h ! i)"
  by (auto simp add: spread_def nth_append)

lemma sort_in_place_other: "i \<noteq> a \<Longrightarrow> sort_in_place c h a ! i = h ! i"
  by (simp add: sort_in_place_def)

lemma getSortedRows_eq:
  "data st = Some d \<Longrightarrow>
   getSortedRows rt st = Inr (array_sort (compareRows rt (sortConfig st)) (rows d), st)"
  by (simp add: getSortedRows_def spread_def sort_in_place_def)

lemma compare_B_A: "compareRows rt \<lparr> key = ''average'', direction = ''desc'' \<rparr> row_B row_A = - 1"
  by (simp add: compareRows_def row_A_def row_B_def get_prop_def js_lt_def js_gt_def IsLessThan_def)

lemma compare_C_B: "compareRows rt \<lparr> key = ''average'', direction = ''desc'' \<rparr> row_C row_B = 1"
  by (simp add: compareRows_def row_C_def row_B_def get_prop_def js_lt_def js_gt_def IsLessThan_def)

lemma compare_C_A: "compareRows rt \<lparr> key = ''average'', direction = ''desc'' \<rparr> row_C row_A = 1"
  by (simp add: compareRows_def row_A_def row_C_def get_prop_def js_lt_def js_gt_def IsLessThan_def)

lemma getSortedRows_sample:
  "getSortedRows rt loaded_sample = Inr ([row_B, row_A, row_C], loaded_sample)"
proof -
  have d: "data loaded_sample = Some sample_dataset" by (simp add: loaded_sample_def)
  have sc: "sortConfig loaded_sample = \<lparr> key = ''average'', direction = ''desc'' \<rparr>"
    by (simp add: loaded_sample_def constructor_def)
  show ?thesis
    by (simp add: getSortedRows_eq [OF d] sc sample_dataset_def array_sort_def
        compare_B_A compare_C_B compare_C_A)
qed

text \<open>
  Claim C1 as stated fails when a row holds no value at the sort key. With the initial
  sort state (key \<open>average\<close>, direction \<open>desc\<close>) and the rows \<open>row_A\<close> (average 0.91)
  and \<open>row_D\<close> (no average), both comparisons of the compare function are false,
  it returns 0, and the rows stay in the order given. The result has \<open>row_A\<close> before
  \<open>row_D\<close>, and \<open>0.91 >= undefined\<close> is false. So is \<open>undefined >= 0.91\<close>: no order
  of these two rows is sorted in the sense of the claim.
\<close>

theorem getSortedRows_missing_value_unsorted:
  "\<forall>rt. data loaded_partial = Some partial_dataset
     \<and> rows partial_dataset = [row_A, row_D]
     \<and> sortConfig loaded_partial = \<lparr> key = ''average'', direction = ''desc'' \<rparr>
     \<and> getSortedRows rt loaded_partial = Inr ([row_A, row_D], loaded_partial)
     \<and> get_prop row_A ''average'' = JNum (Finite (91 / 100))
     \<and> get_prop row_D ''average'' = JUndefined
     \<and> \<not> sorted_wrt (\<lambda>a b. js_ge rt (get_prop a ''average'') (get_prop b ''average''))
            [row_A, row_D]
     \<and> \<not> sorted_wrt (\<lambda>a b. js_ge rt (get_prop a ''average'') (get_prop b ''average''))
            [row_D, row_A]"
proof
  fix rt
  have d: "data loaded_partial = Some partial_dataset"
    by (simp add: loaded_partial_def)
  have c: "compareRows rt (sortConfig loaded_partial) row_D row_A = 0"
    by (simp add: compareRows_def loaded_partial_def constructor_def row_A_def row_D_def
        get_prop_def js_lt_def js_gt_def IsLessThan_def)
  have "getSortedRows rt loaded_partial = Inr ([row_A, row_D], loaded_partial)"
    using c by (simp add: getSortedRows_eq [OF d] partial_dataset_def array_sort_def)
  moreover have "\<not> js_ge rt (get_prop row_A ''average'') (get_prop row_D ''average'')"
    by (simp add: js_ge_def IsLessThan_def row_A_def row_D_def get_prop_def)
  moreover have "\<not> js_ge rt (get_prop row_D ''average'') (get_prop row_A ''average'')"
    by (simp add: js_ge_def IsLessThan_def row_A_def row_D_def get_prop_def)
  ultimately show "data loaded_partial = Some partial_dataset
     \<and> rows partial_dataset = [row_A, row_D]
     \<and> sortConfig loaded_partial = \<lparr> key = ''average'', direction = ''desc'' \<rparr>
     \<and> getSortedRows rt loaded_partial = Inr ([row_A, row_D], loaded_partial)
     \<and> get_prop row_A ''average'' = JNum (Finite (91 / 100))
     \<and> get_prop row_D ''average'' = JUndefined
     \<and> \<not> sorted_wrt (\<lambda>a b. js_ge rt (get_prop a ''average'') (get_prop b ''average''))
            [row_A, row_D]
     \<and> \<not> sorted_wrt (\<lambda>a b. js_ge rt (get_prop a ''average'') (get_prop b ''average''))
            [row_D, row_A]"
    using d by (simp add: partial_dataset_def loaded_partial_def constructor_def row_A_def
        row_D_def get_prop_def)
qed

text \<open>
  Claim C1, amended: when the sort key holds a number in every row, or a string in every
  row, \<open>getSortedRows\<close> returns a sequence sorted on the value at the key: under
  direction \<open>asc\<close> every row \<open>a\<close> before a row \<open>b\<close> satisfies \<open>a[key] <= b[key]\<close>, and
  under any other direction, \<open>desc\<close> among them, \<open>a[key] >= b[key]\<close>.
\<close>

theorem getSortedRows_sorted:
  assumes "data st = Some d"
    and "(\<forall>r\<in>set (rows d). \<exists>n. get_prop r (key (sortConfig st)) = JNum n) \<or>
         (\<forall>r\<in>set (rows d). \<exists>s. get_prop r (key (sortConfig st)) = JStr s)"
  shows "\<exists>res. getSortedRows rt st = Inr (res, st) \<and>
     (if direction (sortConfig st) = ''asc''
      then sorted_wrt (\<lambda>a b. js_le rt (get_prop a (key (sortConfig st)))
                                     (get_prop b (key (sortConfig st)))) res
      else sorted_wrt (\<lambda>a b. js_ge rt (get_prop a (key (sortConfig st)))
                                     (get_prop b (key (sortConfig st)))) res)"
  using assms sorted_asc [of "rows d" "sortConfig st" rt] sorted_desc [of "rows d" "sortConfig st" rt]
  by (simp add: getSortedRows_eq)

theorem getSortedRows_sorted_witness:
  "\<forall>rt. data loaded_sample = Some sample_dataset
     \<and> get_prop row_A (key (sortConfig loaded_sample)) = JNum (Finite (91 / 100))
     \<and> get_prop row_B (key (sortConfig loaded_sample)) = JNum (Finite (95 / 100))
     \<and> get_prop row_C (key (sortConfig loaded_sample)) = JNum (Finite (1 / 2))
     \<and> direction (sortConfig loaded_sample) = ''desc''
     \<and> getSortedRows rt loaded_sample = Inr ([row_B, row_A, row_C], loaded_sample)
     \<and> sorted_wrt (\<lambda>a b. js_ge rt (get_prop a ''average'') (get_prop b ''average''))
          [row_B, row_A, row_C]"
proof
  fix rt
  have d: "data loaded_sample = Some sample_dataset" by (simp add: loaded_sample_def)
  have sc: "sortConfig loaded_sample = \<lparr> key = ''average'', direction = ''desc'' \<rparr>"
    by (simp add: loaded_sample_def constructor_def)
  have v: "get_prop row_A ''average'' = JNum (Finite (91 / 100))"
      "get_prop row_B ''average'' = JNum (Finite (95 / 100))"
      "get_prop row_C ''average'' = JNum (Finite (1 / 2))"
    by (simp_all add: row_A_def row_B_def row_C_def get_prop_def)
  have hom: "(\<forall>r\<in>set (rows sample_dataset). \<exists>n. get_prop r (key (sortConfig loaded_sample)) = JNum n) \<or>
         (\<forall>r\<in>set (rows sample_dataset). \<exists>s. get_prop r (key (sortConfig loaded_sample)) = JStr s)"
    by (simp add: sc sample_dataset_def v)
  show "data loaded_sample = Some sample_dataset
     \<and> get_prop row_A (key (sortConfig loaded_sample)) = JNum (Finite (91 / 100))
     \<and> get_prop row_B (key (sortConfig loaded_sample)) = JNum (Finite (95 / 100))
     \<and> get_prop row_C (key (sortConfig loaded_sample)) = JNum (Finite (1 / 2))
     \<and> direction (sortConfig loaded_sample) = ''desc''
     \<and> getSortedRows rt loaded_sample = Inr ([row_B, row_A, row_C], loaded_sample)
     \<and> sorted_wrt (\<lambda>a b. js_ge rt (get_prop a ''average'') (get_prop b ''average''))
          [row_B, row_A, row_C]"
    using getSortedRows_sorted [OF d hom, of rt] getSortedRows_sample [of rt] d
    by (simp add: sc v)
qed

text \<open>
  Claim C2: for every dataset, \<open>getSortedRows\<close> returns a sequence with the same
  length and the same multiset of rows as \<open>Dataset.rows\<close>, and the state it leaves is
  the state it started from: the sort reorders the copy that the spread allocated, not
  the array of the dataset.
\<close>

theorem getSortedRows_permutation:
  assumes "data st = Some d"
  shows "\<exists>res. getSortedRows rt st = Inr (res, st) \<and>
           mset res = mset (rows d) \<and> length res = length (rows d)"
  using assms by (simp add: getSortedRows_eq mset_array_sort length_array_sort)

theorem getSortedRows_permutation_witness:
  "\<forall>rt. data loaded_sample = Some sample_dataset
     \<and> rows sample_dataset = [row_A, row_B, row_C]
     \<and> getSortedRows rt loaded_sample = Inr ([row_B, row_A, row_C], loaded_sample)
     \<and> mset [row_B, row_A, row_C] = mset (rows sample_dataset)
     \<and> length [row_B, row_A, row_C] = length (rows sample_dataset)"
proof
  fix rt
  have d: "data loaded_sample = Some sample_dataset" by (simp add: loaded_sample_def)
  show "data loaded_sample = Some sample_dataset
     \<and> rows sample_dataset = [row_A, row_B, row_C]
     \<and> getSortedRows rt loaded_sample = Inr ([row_B, row_A, row_C], loaded_sample)
     \<and> mset [row_B, row_A, row_C] = mset (rows sample_dataset)
     \<and> length [row_B, row_A, row_C] = length (rows sample_dataset)"
    using getSortedRows_permutation [OF d, of rt] getSortedRows_sample [of rt] d
    by (simp add: sample_dataset_def)
qed

section \<open>renderTable and handleSort\<close>

lemma renderTable_Some:
  assumes "data st = Some d"
  shows "fst (renderTable rt st) = Inr ()"
    and "(snd (renderTable rt st)) \<lparr> document := document st \<rparr> = st"
    and "dom (document (snd (renderTable rt st))) = dom (document st)"
  using assms
  by (auto simp add: renderTable_def Let_def getSortedRows_eq createHeaderRow_def
      createTableBody_def split: option.splits)

lemma renderTable_frame:
  "sortConfig (snd (renderTable rt st)) = sortConfig st \<and> data (snd (renderTable rt st)) = data st"
proof (cases "data st")
  case None
  then show ?thesis by (simp add: renderTable_def console_error_def)
next
  case (Some d)
  have "sortConfig ((snd (renderTable rt st)) \<lparr> document := document st \<rparr>) = sortConfig st"
    and "data ((snd (renderTable rt st)) \<lparr> document := document st \<rparr>) = data st"
    using renderTable_Some(2) [OF Some, of rt] by simp_all
  then show ?thesis by simp
qed

text \<open>
  Claim C3: for every sort state and every key \<open>k\<close>, \<open>handleSort(k)\<close> leaves the sort
  state \<open>{key: k, direction: d}\<close>, where \<open>d\<close> is \<open>desc\<close> exactly when \<open>k\<close> is the current
  key and the current direction is \<open>asc\<close>, and \<open>asc\<close> in every other case.
\<close>

theorem handleSort_sortConfig:
  "sortConfig (snd (handleSort rt k st)) =
     \<lparr> key = k,
       direction = (if key (sortConfig st) = k \<and> direction (sortConfig st) = ''asc''
                    then ''desc'' else ''asc'') \<rparr>"
  by (simp add: handleSort_def Let_def renderTable_frame)

text \<open>
  The toggle law of the claim, on the loaded renderer of the bootstrap: from
  \<open>average\<close>/\<open>desc\<close> a click on \<open>average\<close> gives \<open>asc\<close>, a second one \<open>desc\<close>, and a
  click on \<open>method\<close> from either state gives \<open>method\<close>/\<open>asc\<close>.
\<close>

theorem handleSort_sortConfig_witness:
  "\<forall>rt. sortConfig loaded_sample = \<lparr> key = ''average'', direction = ''desc'' \<rparr>
     \<and> sortConfig (snd (handleSort rt ''average'' loaded_sample))
           = \<lparr> key = ''average'', direction = ''asc'' \<rparr>
     \<and> sortConfig (snd (handleSort rt ''average'' (snd (handleSort rt ''average'' loaded_sample))))
           = \<lparr> key = ''average'', direction = ''desc'' \<rparr>
     \<and> sortConfig (snd (handleSort rt ''method'' loaded_sample))
           = \<lparr> key = ''method'', direction = ''asc'' \<rparr>
     \<and> sortConfig (snd (handleSort rt ''method'' (snd (handleSort rt ''average'' loaded_sample))))
           = \<lparr> key = ''method'', direction = ''asc'' \<rparr>"
proof
  fix rt
  have s0: "sortConfig loaded_sample = \<lparr> key = ''average'', direction = ''desc'' \<rparr>"
    by (simp add: loaded_sample_def constructor_def)
  have s1: "sortConfig (snd (handleSort rt ''average'' loaded_sample))
              = \<lparr> key = ''average'', direction = ''asc'' \<rparr>"
    using handleSort_sortConfig [of rt "''average''" loaded_sample] by (simp add: s0)
  have s2: "sortConfig (snd (handleSort rt ''average'' (snd (handleSort rt ''average'' loaded_sample))))
              = \<lparr> key = ''average'', direction = ''desc'' \<rparr>"
    using handleSort_sortConfig [of rt "''average''" "snd (handleSort rt ''average'' loaded_sample)"]
    by (simp add: s1)
  have s3: "sortConfig (snd (handleSort rt ''method'' loaded_sample))
              = \<lparr> key = ''method'', direction = ''asc'' \<rparr>"
    using handleSort_sortConfig [of rt "''method''" loaded_sample] by (simp add: s0)
  have s4: "sortConfig (snd (handleSort rt ''method'' (snd (handleSort rt ''average'' loaded_sample))))
              = \<lparr> key = ''method'', direction = ''asc'' \<rparr>"
    using handleSort_sortConfig [of rt "''method''" "snd (handleSort rt ''average'' loaded_sample)"]
    by (simp add: s1)
  show "sortConfig loaded_sample = \<lparr> key = ''average'', direction = ''desc'' \<rparr>
     \<and> sortConfig (snd (handleSort rt ''average'' loaded_sample))
           = \<lparr> key = ''average'', direction = ''asc'' \<rparr>
     \<and> sortConfig (snd (handleSort rt ''average'' (snd (handleSort rt ''average'' loaded_sample))))
           = \<lparr> key = ''average'', direction = ''desc'' \<rparr>
     \<and> sortConfig (snd (handleSort rt ''method'' loaded_sample))
           = \<lparr> key = ''method'', direction = ''asc'' \<rparr>
     \<and> sortConfig (snd (handleSort rt ''method'' (snd (handleSort rt ''average'' loaded_sample))))
           = \<lparr> key = ''method'', direction = ''asc'' \<rparr>"
    using s0 s1 s2 s3 s4 by simp
qed

text \<open>
  Claim C6: \<open>renderTable\<close> called while the dataset is unset returns normally, adds one
  entry to the console and changes nothing else: the document, with the title, the
  header container and the body container, is the one it started with.
\<close>

theorem renderTable_unset:
  assumes "data st = None"
  shows "renderTable rt st =
           (Inr (), st \<lparr> console := console st @ [(''No data available to render table'', None)] \<rparr>)"
  using assms by (simp add: renderTable_def console_error_def)

theorem renderTable_unset_witness:
  "\<forall>rt. data (constructor bootstrap_config sample_page) = None
     \<and> fst (renderTable rt (constructor bootstrap_config sample_page)) = Inr ()
     \<and> document (snd (renderTable rt (constructor bootstrap_config sample_page))) = sample_page
     \<and> console (snd (renderTable rt (constructor bootstrap_config sample_page)))
          = [(''No data available to render table'', None)]"
proof
  fix rt
  have d: "data (constructor bootstrap_config sample_page) = None"
    by (simp add: constructor_def)
  show "data (constructor bootstrap_config sample_page) = None
     \<and> fst (renderTable rt (constructor bootstrap_config sample_page)) = Inr ()
     \<and> document (snd (renderTable rt (constructor bootstrap_config sample_page))) = sample_page
     \<and> console (snd (renderTable rt (constructor bootstrap_config sample_page)))
          = [(''No data available to render table'', None)]"
    using renderTable_unset [OF d, of rt] d by (simp add: constructor_def)
qed

text \<open>
  Claim C9 as stated fails: with the dataset unset, \<open>handleSort\<close> still replaces the sort
  state before it calls \<open>renderTable\<close>. On the renderer the constructor returns,
  \<open>handleSort('method')\<close> changes the sort state from \<open>average\<close>/\<open>desc\<close> to
  \<open>method\<close>/\<open>asc\<close>.
\<close>

theorem handleSort_unset_changes_sortConfig:
  "\<forall>rt. data (constructor bootstrap_config sample_page) = None
     \<and> sortConfig (constructor bootstrap_config sample_page)
          = \<lparr> key = ''average'', direction = ''desc'' \<rparr>
     \<and> sortConfig (snd (handleSort rt ''method'' (constructor bootstrap_config sample_page)))
          = \<lparr> key = ''method'', direction = ''asc'' \<rparr>
     \<and> snd (handleSort rt ''method'' (constructor bootstrap_config sample_page))
          \<noteq> constructor bootstrap_config sample_page"
proof
  fix rt
  have a: "sortConfig (snd (handleSort rt ''method'' (constructor bootstrap_config sample_page)))
          = \<lparr> key = ''method'', direction = ''asc'' \<rparr>"
    by (simp add: handleSort_def Let_def renderTable_frame constructor_def)
  have b: "sortConfig (constructor bootstrap_config sample_page)
          = \<lparr> key = ''average'', direction = ''desc'' \<rparr>"
    by (simp add: constructor_def)
  have "snd (handleSort rt ''method'' (constructor bootstrap_config sample_page))
          \<noteq> constructor bootstrap_config sample_page"
  proof
    assume "snd (handleSort rt ''method'' (constructor bootstrap_config sample_page))
          = constructor bootstrap_config sample_page"
    then have "sortConfig (snd (handleSort rt ''method'' (constructor bootstrap_config sample_page)))
          = sortConfig (constructor bootstrap_config sample_page)" by simp
    then show False by (simp add: a b)
  qed
  then show "data (constructor bootstrap_config sample_page) = None
     \<and> sortConfig (constructor bootstrap_config sample_page)
          = \<lparr> key = ''average'', direction = ''desc'' \<rparr>
     \<and> sortConfig (snd (handleSort rt ''method'' (constructor bootstrap_config sample_page)))
          = \<lparr> key = ''method'', direction = ''asc'' \<rparr>
     \<and> snd (handleSort rt ''method'' (constructor bootstrap_config sample_page))
          \<noteq> constructor bootstrap_config sample_page"
    using a b by (simp add: constructor_def)
qed

text \<open>
  Claim C9, amended: if the dataset is unset, \<open>handleSort(key)\<close> raises nothing and
  changes no element of the page: the re-render logs one error and does nothing else.
  The sort state is replaced as for a loaded dataset; every other field of the renderer
  is unchanged.
\<close>

theorem handleSort_unset:
  assumes "data st = None"
  shows "handleSort rt k st =
     (Inr (),
      st \<lparr> sortConfig := \<lparr> key = k,
              direction = (if key (sortConfig st) = k \<and> direction (sortConfig st) = ''asc''
                           then ''desc'' else ''asc'') \<rparr>,
           console := console st @ [(''No data available to render table'', None)] \<rparr>)"
  using assms by (simp add: handleSort_def Let_def renderTable_def console_error_def)

theorem handleSort_unset_witness:
  "\<forall>rt. data (constructor bootstrap_config sample_page) = None
     \<and> handleSort rt ''method'' (constructor bootstrap_config sample_page) =
         (Inr (),
          (constructor bootstrap_config sample_page)
            \<lparr> sortConfig := \<lparr> key = ''method'', direction = ''asc'' \<rparr>,
              console := [(''No data available to render table'', None)] \<rparr>)"
proof
  fix rt
  have d: "data (constructor bootstrap_config sample_page) = None"
    by (simp add: constructor_def)
  show "data (constructor bootstrap_config sample_page) = None
     \<and> handleSort rt ''method'' (constructor bootstrap_config sample_page) =
         (Inr (),
          (constructor bootstrap_config sample_page)
            \<lparr> sortConfig := \<lparr> key = ''method'', direction = ''asc'' \<rparr>,
              console := [(''No data available to render table'', None)] \<rparr>)"
    using handleSort_unset [OF d, of rt "''method''"] d by (simp add: constructor_def)
qed

section \<open>loadData and init\<close>





lemma textContent_set_textContent: "textContent (set_textContent s n) = s"
  by (cases n) auto

lemma decimal_404: "decimal 404 = ''404''"
  by (simp add: decimal.simps digit_char_def)

lemma loadData_not_ok:
  assumes "net (dataUrl st) = Resolved r" "\<not> ok r" "document st (titleId st) = Some el"
  shows "loadData net st =
     (Inl (Error (''Failed to load data: '' @ decimal (status r) @ '' '' @ statusText r)),
      st \<lparr> console := console st @
             [(''Error loading leaderboard data:'',
               Some (Error (''Failed to load data: '' @ decimal (status r) @ '' '' @ statusText r)))],
           document := (document st)
             (titleId st \<mapsto> set_textContent ''Error loading leaderboard data'' el) \<rparr>)"
  using assms by (simp add: loadData_def loadData_try_def Let_def console_error_def)


text \<open>
  Claim C4 as stated fails: the text written into the title element is the fixed string
  \<open>Error loading leaderboard data\<close>, which does not contain \<open>404\<close>. The status is part
  of the message of the error that is thrown and logged, not of the title. On the
  bootstrap page with a 404 response, \<open>init\<close> resolves to false, the body container is
  still empty, and the title reads as said.
\<close>

theorem init_404_title_without_status:
  "\<forall>rt. fst (init not_found rt (constructor bootstrap_config sample_page)) = False
     \<and> document (snd (init not_found rt (constructor bootstrap_config sample_page))) ''table-title''
          = Some (Element ''h2'' [] None [TextNode ''Error loading leaderboard data''])
     \<and> textContent (Element ''h2'' [] None [TextNode ''Error loading leaderboard data''])
          = ''Error loading leaderboard data''
     \<and> \<not> contains ''404'' ''Error loading leaderboard data''
     \<and> document (snd (init not_found rt (constructor bootstrap_config sample_page))) ''table-body''
          = Some (Element ''tbody'' [] None [])"
  by (simp add: init_def loadData_def loadData_try_def not_found_def constructor_def
      bootstrap_config_def sample_page_def ok_def console_error_def Let_def)

text \<open>
  Claim C4, amended: if the fetch of \<open>dataUrl\<close> returns HTTP status 404 and the page has
  the title element, then the title element's text becomes the fixed string
  \<open>Error loading leaderboard data\<close>, \<open>init()\<close> resolves to false, every other element of
  the page is unchanged (the body container stays empty if it was), and the stored
  dataset is unchanged.
\<close>

theorem init_404:
  assumes "net (dataUrl st) = Resolved r" and "status r = 404"
    and "document st (titleId st) = Some el"
  shows "fst (init net rt st) = False
     \<and> document (snd (init net rt st))
          = (document st)(titleId st \<mapsto> set_textContent ''Error loading leaderboard data'' el)
     \<and> textContent (set_textContent ''Error loading leaderboard data'' el)
          = ''Error loading leaderboard data''
     \<and> data (snd (init net rt st)) = data st"
proof -
  have "\<not> ok r" using assms(2) by (simp add: ok_def)
  then show ?thesis using loadData_not_ok [of net st r el] assms
    by (simp add: init_def console_error_def textContent_set_textContent)
qed

theorem init_404_witness:
  "\<forall>rt. not_found (dataUrl (constructor bootstrap_config sample_page))
          = Resolved \<lparr> status = 404, statusText = ''Not Found'', json = None \<rparr>
     \<and> document (constructor bootstrap_config sample_page)
          (titleId (constructor bootstrap_config sample_page)) = Some (Element ''h2'' [] None [])
     \<and> fst (init not_found rt (constructor bootstrap_config sample_page)) = False
     \<and> document (snd (init not_found rt (constructor bootstrap_config sample_page)))
          = sample_page(''table-title'' \<mapsto>
              Element ''h2'' [] None [TextNode ''Error loading leaderboard data''])
     \<and> data (snd (init not_found rt (constructor bootstrap_config sample_page))) = None"
proof
  fix rt
  have n: "not_found (dataUrl (constructor bootstrap_config sample_page))
          = Resolved \<lparr> status = 404, statusText = ''Not Found'', json = None \<rparr>"
    by (simp add: not_found_def)
  have s: "status \<lparr> status = 404, statusText = ''Not Found'', json = None \<rparr> = 404"
    by simp
  have t: "document (constructor bootstrap_config sample_page)
          (titleId (constructor bootstrap_config sample_page)) = Some (Element ''h2'' [] None [])"
    by (simp add: constructor_def bootstrap_config_def sample_page_def)
  show "not_found (dataUrl (constructor bootstrap_config sample_page))
          = Resolved \<lparr> status = 404, statusText = ''Not Found'', json = None \<rparr>
     \<and> document (constructor bootstrap_config sample_page)
          (titleId (constructor bootstrap_config sample_page)) = Some (Element ''h2'' [] None [])
     \<and> fst (init not_found rt (constructor bootstrap_config sample_page)) = False
     \<and> document (snd (init not_found rt (constructor bootstrap_config sample_page)))
          = sample_page(''table-title'' \<mapsto>
              Element ''h2'' [] None [TextNode ''Error loading leaderboard data''])
     \<and> data (snd (init not_found rt (constructor bootstrap_config sample_page))) = None"
    using init_404 [of not_found "constructor bootstrap_config sample_page"
        "\<lparr> status = 404, statusText = ''Not Found'', json = None \<rparr>"
        "Element ''h2'' [] None []" rt] n s t
    by (simp add: constructor_def bootstrap_config_def)
qed



text \<open>
  Claim C10: whenever \<open>loadData\<close> fails (non-success status, rejected fetch, body that
  does not parse, or the TypeError of the title write), the stored dataset is the one
  from before the call.
\<close>

theorem loadData_failure_keeps_data:
  assumes "fst (loadData net st) = Inl e"
  shows "data (snd (loadData net st)) = data st"
  using assms
  by (auto simp add: loadData_def loadData_try_def Let_def console_error_def
      split: fetch_outcome.splits option.splits if_splits)

theorem loadData_failure_keeps_data_witness:
  "fst (loadData not_found loaded_sample) = Inl (Error ''Failed to load data: 404 Not Found'')
   \<and> data loaded_sample = Some sample_dataset
   \<and> data (snd (loadData not_found loaded_sample)) = Some sample_dataset
   \<and> fst (loadData (\<lambda>url. Rejected) loaded_sample) = Inl NetworkError
   \<and> data (snd (loadData (\<lambda>url. Rejected) loaded_sample)) = Some sample_dataset
   \<and> fst (loadData (\<lambda>url. Resolved \<lparr> status = 200, statusText = ''OK'', json = None \<rparr>)
             loaded_sample) = Inl ParseError
   \<and> data (snd (loadData (\<lambda>url. Resolved \<lparr> status = 200, statusText = ''OK'', json = None \<rparr>)
             loaded_sample)) = Some sample_dataset"
proof -
  have a: "fst (loadData not_found loaded_sample) = Inl (Error ''Failed to load data: 404 Not Found'')"
    by (simp add: loadData_def loadData_try_def not_found_def loaded_sample_def constructor_def
        bootstrap_config_def sample_page_def ok_def console_error_def Let_def decimal_404)
  have b: "fst (loadData (\<lambda>url. Rejected) loaded_sample) = Inl NetworkError"
    by (simp add: loadData_def loadData_try_def loaded_sample_def constructor_def
        bootstrap_config_def sample_page_def console_error_def Let_def)
  have c: "fst (loadData (\<lambda>url. Resolved \<lparr> status = 200, statusText = ''OK'', json = None \<rparr>)
             loaded_sample) = Inl ParseError"
    by (simp add: loadData_def loadData_try_def loaded_sample_def constructor_def
        bootstrap_config_def sample_page_def ok_def console_error_def Let_def)
  have d: "data loaded_sample = Some sample_dataset" by (simp add: loaded_sample_def)
  show ?thesis
    using loadData_failure_keeps_data [OF a] loadData_failure_keeps_data [OF b]
      loadData_failure_keeps_data [OF c] a b c d by simp
qed

text \<open>
  Claim C8 fails on the code for the write of \<open>loadData\<close>: \<open>renderTable\<close> tests each
  element before it writes, \<open>loadData\<close> does not. On a page without the title element
  and a 404 response, the write in the \<open>catch\<close> block raises a TypeError; the error
  that carries the status is logged and then lost.
\<close>

theorem loadData_404_no_title:
  "loadData not_found (constructor bootstrap_config page_without_title) =
     (Inl TypeError,
      (constructor bootstrap_config page_without_title)
        \<lparr> console := [(''Error loading leaderboard data:'',
                       Some (Error ''Failed to load data: 404 Not Found''))] \<rparr>)"
  by (simp add: loadData_def loadData_try_def not_found_def constructor_def bootstrap_config_def
      page_without_title_def ok_def console_error_def decimal_404)

text \<open>
  \<open>renderTable\<close> does tolerate absent elements: it returns normally whatever the page
  holds, changes only the document, and creates no element for an id the page lacks.
\<close>

lemma renderTable_tolerates_absent_elements:
  "fst (renderTable rt st) = Inr () \<and> dom (document (snd (renderTable rt st))) = dom (document st)"
proof (cases "data st")
  case None
  then show ?thesis by (simp add: renderTable_def console_error_def)
next
  case (Some d)
  then show ?thesis using renderTable_Some(1,3) [OF Some, of rt] by simp
qed

section \<open>createTableBody\<close>










end
